theory Spec2Isabelle
  imports Main "HOL-Library.Multiset"
begin

section \<open>Python strings and exceptions\<close>

text \<open>
  The program is one Python file, \<^verbatim>\<open>bot.py\<close>. Its strings are modelled as
  \<^typ>\<open>string\<close>, each \<^typ>\<open>char\<close> read as the code point of that number
  (U+0000 to U+00FF), so the model covers the Python strings over that range. The
  character classes below are those of the Python runtime on that range.
\<close>

datatype error = ValueError

definition cp :: "char \<Rightarrow> nat" where
  "cp c = of_char c"

text \<open>\<^verbatim>\<open>str.isspace\<close>: TAB to CR, FS to US, SPACE, NEL and NBSP.\<close>

definition py_isspace :: "char \<Rightarrow> bool" where
  "py_isspace c =
     ((9 \<le> cp c \<and> cp c \<le> 13) \<or> (28 \<le> cp c \<and> cp c \<le> 32) \<or> cp c = 133 \<or> cp c = 160)"

text \<open>
  \<^verbatim>\<open>str.isdigit\<close> holds of the characters whose Unicode numeric type is Decimal or
  Digit: below U+0100 these are \<^verbatim>\<open>0\<close> to \<^verbatim>\<open>9\<close> and the superscripts
  U+00B2, U+00B3 and U+00B9. Only the first ten are decimal characters, the ones
  \<^verbatim>\<open>int\<close> converts.
\<close>

definition is_decimal :: "char \<Rightarrow> bool" where
  "is_decimal c = (48 \<le> cp c \<and> cp c \<le> 57)"

definition py_isdigit_char :: "char \<Rightarrow> bool" where
  "py_isdigit_char c = (is_decimal c \<or> cp c = 178 \<or> cp c = 179 \<or> cp c = 185)"

text \<open>\<^verbatim>\<open>s.isdigit()\<close>: every character a digit, and at least one character.\<close>

definition py_isdigit :: "string \<Rightarrow> bool" where
  "py_isdigit s = (s \<noteq> [] \<and> list_all py_isdigit_char s)"

text \<open>\<^verbatim>\<open>str.lower\<close>: A to Z and U+00C0 to U+00DE (but the sign U+00D7) move up by 32.\<close>

definition lower_char :: "char \<Rightarrow> char" where
  "lower_char c =
     (if (65 \<le> cp c \<and> cp c \<le> 90) \<or> (192 \<le> cp c \<and> cp c \<le> 222 \<and> cp c \<noteq> 215)
      then char_of (cp c + 32) else c)"

definition py_lower :: "string \<Rightarrow> string" where
  "py_lower s = map lower_char s"

text \<open>\<^verbatim>\<open>str.strip()\<close> drops the white space at both ends.\<close>

definition py_strip :: "string \<Rightarrow> string" where
  "py_strip s = rev (dropWhile py_isspace (rev (dropWhile py_isspace s)))"

text \<open>
  \<^verbatim>\<open>str.split()\<close> without argument: the maximal runs of characters that are not
  white space, in order. \<open>split_acc\<close> carries the current run, reversed.
\<close>

fun split_acc :: "string \<Rightarrow> string \<Rightarrow> string list" where
  "split_acc acc [] = (if acc = [] then [] else [rev acc])"
| "split_acc acc (c # cs) =
     (if py_isspace c
      then (if acc = [] then split_acc [] cs else rev acc # split_acc [] cs)
      else split_acc (c # acc) cs)"

definition py_split :: "string \<Rightarrow> string list" where
  "py_split s = split_acc [] s"

text \<open>\<^verbatim>\<open>sub in s\<close> on strings: \<open>sub\<close> occurs in \<open>s\<close> as a contiguous block.\<close>

fun starts_with :: "string \<Rightarrow> string \<Rightarrow> bool" where
  "starts_with [] s = True"
| "starts_with (p # ps) [] = False"
| "starts_with (p # ps) (c # cs) = (p = c \<and> starts_with ps cs)"

fun py_in :: "string \<Rightarrow> string \<Rightarrow> bool" where
  "py_in sub [] = (sub = [])"
| "py_in sub (c # cs) = (starts_with sub (c # cs) \<or> py_in sub cs)"

text \<open>
  \<^verbatim>\<open>int(s)\<close> for a string \<open>s\<close> of digits in the sense of \<^verbatim>\<open>isdigit\<close>, the only
  strings the program hands to it outside \<^verbatim>\<open>remove_card_from_hand\<close>: the decimal
  value when every character is a decimal character, and \<^verbatim>\<open>ValueError\<close> otherwise
  (also for the empty string). CPython since 3.11 also raises \<^verbatim>\<open>ValueError\<close> for a
  string of more than \<^verbatim>\<open>sys.get_int_max_str_digits()\<close> digits, 4300 unless configured.
\<close>

definition int_max_str_digits :: nat where
  "int_max_str_digits = 4300"

definition digit_val :: "char \<Rightarrow> int" where
  "digit_val c = int (cp c) - 48"

definition decimal_value :: "string \<Rightarrow> int" where
  "decimal_value s = foldl (\<lambda>n c. 10 * n + digit_val c) 0 s"

definition py_int :: "string \<Rightarrow> error + int" where
  "py_int s =
     (if s = [] \<or> \<not> list_all is_decimal s \<or> length s > int_max_str_digits
      then Inl ValueError
      else Inr (decimal_value s))"

section \<open>Cards and the game\<close>

text \<open>
  A card is a dictionary of one of three shapes, told apart by its \<^verbatim>\<open>'type'\<close>:
  \<^verbatim>\<open>{'type': 'number', 'color': c, 'value': v}\<close>,
  \<^verbatim>\<open>{'type': 'action', 'color': c, 'action': a}\<close> and
  \<^verbatim>\<open>{'type': 'wild', 'action': a}\<close>. These are the only dictionaries that
  \<^verbatim>\<open>detect_card\<close> and \<^verbatim>\<open>parse_manual_input\<close> build.
\<close>

datatype card =
    Number string int
  | Action string string
  | Wild string

text \<open>\<^verbatim>\<open>c['type']\<close>, and \<^verbatim>\<open>c.get(k)\<close> for the other three keys.\<close>

fun ctype :: "card \<Rightarrow> string" where
  "ctype (Number c v) = ''number''"
| "ctype (Action c a) = ''action''"
| "ctype (Wild a) = ''wild''"

fun get_color :: "card \<Rightarrow> string option" where
  "get_color (Number c v) = Some c"
| "get_color (Action c a) = Some c"
| "get_color (Wild a) = None"

fun get_value :: "card \<Rightarrow> int option" where
  "get_value (Number c v) = Some v"
| "get_value (Action c a) = None"
| "get_value (Wild a) = None"

fun get_action :: "card \<Rightarrow> string option" where
  "get_action (Number c v) = None"
| "get_action (Action c a) = Some a"
| "get_action (Wild a) = Some a"

record game =
  player_hand :: "card list"
  top_card :: "card option"

definition init_game :: game where
  "init_game = \<lparr>player_hand = [], top_card = None\<rparr>"

section \<open>The move evaluator: \<^verbatim>\<open>melhores_jogadas\<close>\<close>

text \<open>
  The test of the loop body, branch by branch. \<^verbatim>\<open>carta['color']\<close> is read only
  once \<^verbatim>\<open>carta\<close> is known not to be wild, \<^verbatim>\<open>carta['value']\<close> only of a number
  card and \<^verbatim>\<open>carta['action']\<close> only of an action card, so each subscript finds its
  key and equals the \<^verbatim>\<open>get\<close> of that key.
\<close>

definition jogavel :: "card \<Rightarrow> card \<Rightarrow> bool" where
  "jogavel topc carta =
     (if ctype carta = ''wild'' then True
      else if get_color carta = get_color topc then True
      else if ctype carta = ctype topc then
        (if ctype carta = ''number'' \<and> get_value carta = get_value topc then True
         else if ctype carta = ''action'' \<and> get_action carta = get_action topc then True
         else False)
      else False)"

text \<open>The loop over the hand, appending to \<^verbatim>\<open>jogaveis\<close>.\<close>

fun collect :: "card \<Rightarrow> card list \<Rightarrow> card list \<Rightarrow> card list" where
  "collect topc [] jogaveis = jogaveis"
| "collect topc (carta # rest) jogaveis =
     collect topc rest (if jogavel topc carta then jogaveis @ [carta] else jogaveis)"

text \<open>The key of \<^verbatim>\<open>jogaveis.sort\<close>; the sort is stable, as \<^const>\<open>sort_key\<close> is.\<close>

definition sort_rank :: "card \<Rightarrow> nat" where
  "sort_rank c = (if ctype c = ''number'' then 0 else (if ctype c = ''action'' then 1 else 2))"

definition legal_moves :: "card list \<Rightarrow> card \<Rightarrow> card list" where
  "legal_moves hand topc = sort_key sort_rank (collect topc hand [])"

text \<open>
  \<^verbatim>\<open>melhores_jogadas\<close> prints the sorted list, one line a card. The model returns
  that list, and \<open>None\<close> when there is no top card and the method returns at once.
\<close>

definition melhores_jogadas :: "game \<Rightarrow> card list option" where
  "melhores_jogadas g =
     (case top_card g of
        None \<Rightarrow> None
      | Some topc \<Rightarrow> Some (legal_moves (player_hand g) topc))"

definition is_number :: "card \<Rightarrow> bool" where
  "is_number c = (ctype c = ''number'')"

definition is_action :: "card \<Rightarrow> bool" where
  "is_action c = (ctype c = ''action'')"

definition is_wild :: "card \<Rightarrow> bool" where
  "is_wild c = (ctype c = ''wild'')"

section \<open>The hand: \<^verbatim>\<open>remove_card_from_hand\<close>\<close>

text \<open>
  The method prints one of five reports, and pops a card in one case only. The model
  takes the outcome of \<^verbatim>\<open>int(input(...))\<close>, the integer entered or
  \<^verbatim>\<open>ValueError\<close>, and returns the report with the game after the call. The hand
  is asked for nothing when it is empty.
\<close>

datatype removal =
    EmptyHand
  | Cancelled
  | Removed card
  | InvalidNumber
  | InvalidInput

definition remove_card_from_hand :: "game \<Rightarrow> error + int \<Rightarrow> removal \<times> game" where
  "remove_card_from_hand g entered =
     (if player_hand g = [] then (EmptyHand, g)
      else
        (case entered of
           Inl ValueError \<Rightarrow> (InvalidInput, g)
         | Inr choice \<Rightarrow>
             if choice = 0 then (Cancelled, g)
             else if 1 \<le> choice \<and> choice \<le> int (length (player_hand g))
             then (Removed (player_hand g ! nat (choice - 1)),
                   g\<lparr>player_hand :=
                       take (nat (choice - 1)) (player_hand g) @ drop (nat choice) (player_hand g)\<rparr>)
             else (InvalidNumber, g)))"

section \<open>The manual parser: \<^verbatim>\<open>parse_manual_input\<close>\<close>

definition colors :: "string list" where
  "colors = [''red'', ''blue'', ''green'', ''yellow'']"

definition actions :: "string list" where
  "actions = [''skip'', ''reverse'', ''draw_two'']"

definition wilds :: "string list" where
  "wilds = [''wild'', ''wild_draw_four'']"

text \<open>The end of both successful branches: append to the hand when asked, return the card.\<close>

definition keep_card :: "game \<Rightarrow> bool \<Rightarrow> card \<Rightarrow> error + card option \<times> game" where
  "keep_card g adicionar_na_mao c =
     Inr (Some c,
          if adicionar_na_mao then g\<lparr>player_hand := player_hand g @ [c]\<rparr> else g)"

text \<open>
  \<open>Inr (None, g)\<close> is the return of \<^verbatim>\<open>None\<close>, \<open>Inl ValueError\<close> the exception
  that \<^verbatim>\<open>int(value)\<close> raises and nothing in the method catches. The test
  \<^verbatim>\<open>value.isdigit() and 0 <= int(value) <= 9\<close> calls \<^verbatim>\<open>int\<close> only after
  \<^verbatim>\<open>isdigit\<close> has held; when it is false the \<^verbatim>\<open>elif\<close> is tried.
\<close>

definition parse_manual_input ::
    "game \<Rightarrow> string \<Rightarrow> bool \<Rightarrow> error + card option \<times> game" where
  "parse_manual_input g text adicionar_na_mao =
     (case py_split (py_lower text) of
        [color, value] \<Rightarrow>
          if color \<in> set colors then
            (if py_isdigit value then
               (case py_int value of
                  Inl e \<Rightarrow> Inl e
                | Inr n \<Rightarrow>
                    if 0 \<le> n \<and> n \<le> 9 then keep_card g adicionar_na_mao (Number color n)
                    else if value \<in> set actions
                    then keep_card g adicionar_na_mao (Action color value)
                    else Inr (None, g))
             else if value \<in> set actions
             then keep_card g adicionar_na_mao (Action color value)
             else Inr (None, g))
          else Inr (None, g)
      | [part] \<Rightarrow>
          if part \<in> set wilds then keep_card g adicionar_na_mao (Wild part)
          else Inr (None, g)
      | _ \<Rightarrow> Inr (None, g))"

section \<open>The detector: \<^verbatim>\<open>UNOCardDetector\<close>\<close>

subsection \<open>\<^verbatim>\<open>detect_color\<close>\<close>

text \<open>
  The masks and their pixel counts come from OpenCV. The model takes the counts, one
  for each key of \<^verbatim>\<open>color_ranges\<close>, as \<^verbatim>\<open>color_scores\<close>.
  \<^verbatim>\<open>max(color_scores, key=color_scores.get)\<close> goes through the keys in the order
  of their insertion and keeps the first of the greatest score.
\<close>

definition color_names :: "string list" where
  "color_names = [''red'', ''blue'', ''green'', ''yellow'', ''black'']"

fun max_key :: "(string \<Rightarrow> nat) \<Rightarrow> string \<Rightarrow> string list \<Rightarrow> string" where
  "max_key score best [] = best"
| "max_key score best (k # ks) = max_key score (if score k > score best then k else best) ks"

definition detect_color :: "(string \<Rightarrow> nat) \<Rightarrow> string" where
  "detect_color color_scores =
     (let dominant_color = max_key color_scores (hd color_names) (tl color_names)
      in if color_scores dominant_color > 1000 then dominant_color else ''unknown'')"

subsection \<open>\<^verbatim>\<open>detect_card_type\<close>\<close>

text \<open>The method returns a name, an integer or \<^verbatim>\<open>None\<close>.\<close>

datatype symbol =
    Name string
  | Digit int
  | NoSymbol

definition special_cards :: "(string \<times> string) list" where
  "special_cards =
     [(''S'', ''skip''), (''R'', ''reverse''), (''+2'', ''draw_two''),
      (''W'', ''wild''), (''+4'', ''wild_draw_four'')]"

fun first_symbol :: "(string \<times> string) list \<Rightarrow> string \<Rightarrow> string option" where
  "first_symbol [] text = None"
| "first_symbol ((symbol, name) # rest) text =
     (if py_in symbol text then Some name else first_symbol rest text)"

text \<open>
  The argument is the string that \<^verbatim>\<open>pytesseract.image_to_string\<close> returns for the
  preprocessed image. The configuration asks for the characters of \<open>whitelist\<close> only.
\<close>

definition whitelist :: string where
  "whitelist = ''0123456789SRW+24''"

definition detect_card_type :: "string \<Rightarrow> error + symbol" where
  "detect_card_type ocr =
     (let text = py_strip ocr in
      case first_symbol special_cards text of
        Some name \<Rightarrow> Inr (Name name)
      | None \<Rightarrow>
          (let clean_text = filter py_isdigit_char text in
           if clean_text \<noteq> [] then
             (case py_int clean_text of
                Inl e \<Rightarrow> Inl e
              | Inr number \<Rightarrow>
                  if 0 \<le> number \<and> number \<le> 9 then Inr (Digit number) else Inr NoSymbol)
           else Inr NoSymbol))"

subsection \<open>\<^verbatim>\<open>detect_card\<close>\<close>

text \<open>
  What the two classifiers see of the cropped image: the pixel counts of the five
  masks and the recognised text.
\<close>

record image =
  mask_count :: "string \<Rightarrow> nat"
  ocr_text :: string

text \<open>The reconciliation of colour and symbol; \<open>None\<close> is the return of \<^verbatim>\<open>None\<close>.\<close>

definition reconcile :: "string \<Rightarrow> symbol \<Rightarrow> card option" where
  "reconcile color val =
     (if color \<noteq> ''black'' \<and> color \<noteq> ''unknown'' then
        (case val of
           Digit n \<Rightarrow> Some (Number color n)
         | Name s \<Rightarrow> if s \<in> set actions then Some (Action color s) else None
         | NoSymbol \<Rightarrow> None)
      else if color = ''black'' then
        (case val of
           Name s \<Rightarrow> if s \<in> set wilds then Some (Wild s) else Some (Wild ''wild'')
         | Digit n \<Rightarrow> Some (Wild ''wild'')
         | NoSymbol \<Rightarrow> Some (Wild ''wild''))
      else None)"

definition detect_card :: "image \<Rightarrow> error + card option" where
  "detect_card img =
     (let color = detect_color (mask_count img) in
      case detect_card_type (ocr_text img) of
        Inl e \<Rightarrow> Inl e
      | Inr val \<Rightarrow> Inr (reconcile color val))"

section \<open>Properties of the move evaluator\<close>

lemma collect_filter: "collect t hand acc = acc @ filter (jogavel t) hand"
  by (induction hand arbitrary: acc) auto

lemma rank_cases:
  "is_number c \<and> \<not> is_action c \<and> \<not> is_wild c \<and> sort_rank c = 0 \<or>
   is_action c \<and> \<not> is_number c \<and> \<not> is_wild c \<and> sort_rank c = 1 \<or>
   is_wild c \<and> \<not> is_number c \<and> \<not> is_action c \<and> sort_rank c = 2"
  by (cases c) (simp_all add: sort_rank_def is_number_def is_action_def is_wild_def)

lemma rank_number: "is_number c \<longleftrightarrow> sort_rank c = 0"
  and rank_action: "is_action c \<longleftrightarrow> sort_rank c = 1"
  and rank_wild: "is_wild c \<longleftrightarrow> sort_rank c = 2"
  by (cases c; simp add: sort_rank_def is_number_def is_action_def is_wild_def)+

lemma sorted_same_rank:
  "sorted (map sort_rank (filter is_number xs))"
  "sorted (map sort_rank (filter is_action xs))"
  "sorted (map sort_rank (filter is_wild xs))"
  by (induction xs) (auto simp: rank_number rank_action rank_wild)

lemma filter_rank_twice:
  "filter (\<lambda>x. sort_rank x = i \<and> j = sort_rank x) xs =
     (if i = j then filter (\<lambda>x. j = sort_rank x) xs else [])"
  "filter (\<lambda>x. sort_rank x = i \<and> sort_rank x = j) xs =
     (if i = j then filter (\<lambda>x. sort_rank x = j) xs else [])"
  by (induction xs) auto

text \<open>
  A stable sort on a key of three values lays the list out in three blocks, each in
  the order it had.
\<close>

lemma sort_three:
  "sort_key sort_rank xs = filter is_number xs @ filter is_action xs @ filter is_wild xs"
  (is "_ = ?ys")
proof (rule properties_for_sort_key)
  show "mset ?ys = mset xs"
    using rank_cases by (induction xs) auto
next
  fix k assume "k \<in> set ?ys"
  show "filter (\<lambda>x. sort_rank k = sort_rank x) ?ys = filter (\<lambda>x. sort_rank k = sort_rank x) xs"
    using rank_cases [of k]
    by (auto simp: rank_number rank_action rank_wild filter_rank_twice intro!: filter_cong)
next
  show "sorted (map sort_rank ?ys)"
    by (auto simp: sorted_append rank_number rank_action rank_wild sorted_same_rank)
qed

lemma legal_moves_eq:
  "legal_moves hand t =
     filter (\<lambda>c. jogavel t c \<and> is_number c) hand @
     filter (\<lambda>c. jogavel t c \<and> is_action c) hand @
     filter (\<lambda>c. jogavel t c \<and> is_wild c) hand"
  by (simp add: legal_moves_def collect_filter sort_three)

lemma sorted_legal_moves: "sorted (map sort_rank (legal_moves hand t))"
  by (simp add: legal_moves_def)

lemma jogavel_wild_ref: "jogavel (Wild a) c = is_wild c"
  by (cases c) (simp_all add: jogavel_def is_wild_def)

text \<open>
  C1. Against a wild top card the suggestions are the wild cards of the hand, in the
  order of the hand, and nothing else: no number card and no action card.
\<close>

theorem wild_reference_only_wilds:
  "melhores_jogadas \<lparr>player_hand = hand, top_card = Some (Wild a)\<rparr> = Some (filter is_wild hand)"
proof -
  have "filter (\<lambda>c. is_wild c \<and> is_number c) hand = []"
    and "filter (\<lambda>c. is_wild c \<and> is_action c) hand = []"
    using rank_cases by (auto simp: filter_empty_conv)
  then show ?thesis
    by (simp add: melhores_jogadas_def legal_moves_eq jogavel_wild_ref)
qed

text \<open>
  C2. For the hand wild, red 5, blue skip, red 5 and the top card red 5 the claim
  gives the suggestions red 5, red 5, blue skip, wild. The code does not suggest the
  blue skip: it shares neither the colour nor the type of the top card. The
  suggestions are red 5, red 5, wild.
\<close>

theorem example_hand_blue_skip_not_suggested:
  "melhores_jogadas
     \<lparr>player_hand = [Wild ''wild'', Number ''red'' 5, Action ''blue'' ''skip'', Number ''red'' 5],
      top_card = Some (Number ''red'' 5)\<rparr>
   \<noteq> Some [Number ''red'' 5, Number ''red'' 5, Action ''blue'' ''skip'', Wild ''wild'']"
  by code_simp

text \<open>
  C2, as the code has it: the suggestions for that hand and top card are red 5, red 5
  and the wild card.
\<close>

theorem example_hand_suggestions:
  "melhores_jogadas
     \<lparr>player_hand = [Wild ''wild'', Number ''red'' 5, Action ''blue'' ''skip'', Number ''red'' 5],
      top_card = Some (Number ''red'' 5)\<rparr>
   = Some [Number ''red'' 5, Number ''red'' 5, Wild ''wild'']"
  by code_simp

text \<open>
  C3. A number card is suggested against a number card of the same value, and an
  action card against an action card of the same action, whatever the two colours
  are: in particular when they differ.
\<close>

theorem same_rank_across_colors:
  "melhores_jogadas \<lparr>player_hand = [Number c1 r], top_card = Some (Number c2 r)\<rparr>
     = Some [Number c1 r] \<and>
   melhores_jogadas \<lparr>player_hand = [Action c1 a], top_card = Some (Action c2 a)\<rparr>
     = Some [Action c1 a]"
  by (simp add: melhores_jogadas_def legal_moves_def jogavel_def)

text \<open>
  C4. The suggestions are three blocks: the playable number cards of the hand, then
  its playable action cards, then its playable wild cards, each block in the order of
  the hand. So the list is sorted by the key of the sort, and it holds cards of the
  hand only.
\<close>

theorem suggestions_grouped_in_hand_order:
  "\<exists>out. melhores_jogadas \<lparr>player_hand = hand, top_card = Some t\<rparr> = Some out \<and>
     out = filter (\<lambda>c. jogavel t c \<and> is_number c) hand @
           filter (\<lambda>c. jogavel t c \<and> is_action c) hand @
           filter (\<lambda>c. jogavel t c \<and> is_wild c) hand \<and>
     sorted (map sort_rank out) \<and>
     mset out \<subseteq># mset hand"
proof -
  have "mset (legal_moves hand t) \<subseteq># mset hand"
    by (simp add: legal_moves_def collect_filter)
  then show ?thesis
    using legal_moves_eq [of hand t] sorted_legal_moves [of hand t]
    by (simp add: melhores_jogadas_def)
qed

section \<open>Properties of the detector\<close>

text \<open>
  On a text of white space and characters of the white list, of at most as many
  characters as \<^verbatim>\<open>int\<close> converts, the symbol classifier returns: every digit of
  the white list is a decimal character.
\<close>

lemma set_py_strip: "set (py_strip s) \<subseteq> set s"
  unfolding py_strip_def by (auto dest!: set_dropWhileD)

lemma length_py_strip: "length (py_strip s) \<le> length s"
proof -
  have "length (py_strip s) \<le> length (rev (dropWhile py_isspace s))"
    unfolding py_strip_def length_rev [of "dropWhile py_isspace (rev (dropWhile py_isspace s))"]
    by (rule length_dropWhile_le)
  then have "length (py_strip s) \<le> length (dropWhile py_isspace s)"
    by simp
  also have "\<dots> \<le> length s" by (rule length_dropWhile_le)
  finally show ?thesis .
qed


lemma detect_card_type_returns:
  assumes w: "\<And>c. c \<in> set ocr \<Longrightarrow> c \<in> set whitelist \<or> py_isspace c"
      and l: "length ocr \<le> int_max_str_digits"
  shows "\<exists>v. detect_card_type ocr = Inr v"
proof -
  let ?clean = "filter py_isdigit_char (py_strip ocr)"
  have "is_decimal c" if "c \<in> set ?clean" for c
  proof -
    from that have d: "py_isdigit_char c" and "c \<in> set ocr"
      using set_py_strip [of ocr] by auto
    with w have "c \<in> set whitelist \<or> py_isspace c" by simp
    with d show ?thesis
      by (auto simp: whitelist_def py_isdigit_char_def py_isspace_def is_decimal_def cp_def)
  qed
  then have dec: "list_all is_decimal ?clean"
    by (simp add: list_all_iff)
  have "length ?clean \<le> length (py_strip ocr)"
    by (rule length_filter_le)
  with length_py_strip [of ocr] l have len: "length ?clean \<le> int_max_str_digits"
    by linarith
  show ?thesis
    using dec len
    by (auto simp: detect_card_type_def py_int_def Let_def split: option.splits)
qed

text \<open>
  C5. When the colour is black and the symbol classifier returns, the card is a wild
  card: \<^verbatim>\<open>wild_draw_four\<close> for that symbol, and \<^verbatim>\<open>wild\<close> for the symbol
  \<^verbatim>\<open>wild\<close> and for every other result, a digit and \<^verbatim>\<open>None\<close> among them. It is
  never \<^verbatim>\<open>None\<close>.
\<close>

theorem black_gives_wild:
  assumes "detect_color (mask_count img) = ''black''"
      and "detect_card_type (ocr_text img) = Inr v"
  shows "detect_card img =
           Inr (Some (Wild (if v = Name ''wild_draw_four'' then ''wild_draw_four'' else ''wild'')))"
  using assms by (cases v) (auto simp: detect_card_def reconcile_def wilds_def)

theorem black_gives_wild_witness:
  "detect_color (mask_count
     \<lparr>mask_count = (\<lambda>c. if c = ''black'' then 5000 else 0), ocr_text = ''+4''\<rparr>) = ''black'' \<and>
   detect_card_type (ocr_text
     \<lparr>mask_count = (\<lambda>c. if c = ''black'' then 5000 else 0), ocr_text = ''+4''\<rparr>)
     = Inr (Name ''wild_draw_four'') \<and>
   detect_card \<lparr>mask_count = (\<lambda>c. if c = ''black'' then 5000 else 0), ocr_text = ''+4''\<rparr>
     = Inr (Some (Wild ''wild_draw_four'')) \<and>
   detect_card \<lparr>mask_count = (\<lambda>c. if c = ''black'' then 5000 else 0), ocr_text = ''7''\<rparr>
     = Inr (Some (Wild ''wild''))"
proof -
  let ?four = "\<lparr>mask_count = (\<lambda>c. if c = ''black'' then 5000 else 0), ocr_text = ''+4''\<rparr>"
  let ?seven = "\<lparr>mask_count = (\<lambda>c. if c = ''black'' then 5000 else 0), ocr_text = ''7''\<rparr>"
  have c4: "detect_color (mask_count ?four) = ''black''"
    by (simp add: detect_color_def color_names_def)
  have t4: "detect_card_type (ocr_text ?four) = Inr (Name ''wild_draw_four'')"
    by (simp add: detect_card_type_def py_strip_def py_isspace_def cp_def special_cards_def)
  have c7: "detect_color (mask_count ?seven) = ''black''"
    by (simp add: detect_color_def color_names_def)
  have t7: "detect_card_type ''7'' = Inr (Digit 7)"
    by code_simp
  then have t7': "detect_card_type (ocr_text ?seven) = Inr (Digit 7)"
    by simp
  show ?thesis
    using c4 t4 black_gives_wild [OF c4 t4] black_gives_wild [OF c7 t7'] by simp
qed

text \<open>
  C6. When the symbol classifier returns: a colour \<^verbatim>\<open>unknown\<close> gives \<^verbatim>\<open>None\<close>
  whatever the symbol is, and one of the four colours of the deck gives \<^verbatim>\<open>None\<close>
  for the symbols \<^verbatim>\<open>wild\<close>, \<^verbatim>\<open>wild_draw_four\<close> and \<^verbatim>\<open>None\<close>.
\<close>

theorem unknown_or_mismatch_gives_none:
  assumes "detect_card_type (ocr_text img) = Inr v"
  shows "(detect_color (mask_count img) = ''unknown'' \<longrightarrow> detect_card img = Inr None) \<and>
         (detect_color (mask_count img) \<in> set colors \<and>
          v \<in> {Name ''wild'', Name ''wild_draw_four'', NoSymbol}
            \<longrightarrow> detect_card img = Inr None)"
  using assms by (auto simp: detect_card_def reconcile_def colors_def actions_def)

theorem unknown_or_mismatch_gives_none_witness:
  "detect_card_type (ocr_text \<lparr>mask_count = (\<lambda>c. 0), ocr_text = ''7''\<rparr>) = Inr (Digit 7) \<and>
   detect_color (mask_count \<lparr>mask_count = (\<lambda>c. 0), ocr_text = ''7''\<rparr>) = ''unknown'' \<and>
   detect_card \<lparr>mask_count = (\<lambda>c. 0), ocr_text = ''7''\<rparr> = Inr None \<and>
   detect_card_type (ocr_text
     \<lparr>mask_count = (\<lambda>c. if c = ''green'' then 5000 else 0), ocr_text = ''W''\<rparr>)
     = Inr (Name ''wild'') \<and>
   detect_color (mask_count
     \<lparr>mask_count = (\<lambda>c. if c = ''green'' then 5000 else 0), ocr_text = ''W''\<rparr>) = ''green'' \<and>
   detect_card \<lparr>mask_count = (\<lambda>c. if c = ''green'' then 5000 else 0), ocr_text = ''W''\<rparr>
     = Inr None"
proof -
  let ?dark = "\<lparr>mask_count = (\<lambda>c. 0), ocr_text = ''7''\<rparr>"
  let ?green = "\<lparr>mask_count = (\<lambda>c. if c = ''green'' then 5000 else 0), ocr_text = ''W''\<rparr>"
  have t7: "detect_card_type ''7'' = Inr (Digit 7)"
    by code_simp
  then have td: "detect_card_type (ocr_text ?dark) = Inr (Digit 7)"
    by simp
  have cd: "detect_color (mask_count ?dark) = ''unknown''"
    by (simp add: detect_color_def color_names_def)
  have tg: "detect_card_type (ocr_text ?green) = Inr (Name ''wild'')"
    by (simp add: detect_card_type_def py_strip_def py_isspace_def cp_def special_cards_def)
  have cg: "detect_color (mask_count ?green) = ''green''"
    by (simp add: detect_color_def color_names_def)
  have "detect_card ?dark = Inr None"
    using unknown_or_mismatch_gives_none [OF td] cd by simp
  moreover have "detect_card ?green = Inr None"
    using unknown_or_mismatch_gives_none [OF tg] cg by (simp add: colors_def)
  ultimately show ?thesis
    using td cd tg cg by simp
qed

lemma max_key_ge: "score best \<le> score (max_key score best ks)"
  by (induction ks arbitrary: best) (auto intro: order_trans less_imp_le)

lemma max_key_in: "max_key score best ks \<in> set (best # ks)"
  by (induction ks arbitrary: best) auto

lemma max_key_upper: "k \<in> set (best # ks) \<Longrightarrow> score k \<le> score (max_key score best ks)"
proof (induction ks arbitrary: best)
  case Nil
  then show ?case by simp
next
  case (Cons a ks)
  then show ?case
    using max_key_ge [of score "if score best < score a then a else best" ks]
    by (auto split: if_splits)
qed

lemma max_key_Max: "score (max_key score best ks) = Max (score ` set (best # ks))"
proof (rule sym, rule Max_eqI)
  show "finite (score ` set (best # ks))"
    by simp
  show "\<And>y. y \<in> score ` set (best # ks) \<Longrightarrow> y \<le> score (max_key score best ks)"
    using max_key_upper by blast
  show "score (max_key score best ks) \<in> score ` set (best # ks)"
    using max_key_in by blast
qed

text \<open>Of the keys of the greatest score, \<open>max_key\<close> returns the first.\<close>

lemma max_key_find:
  "find (\<lambda>c. score c = score (max_key score best ks)) (best # ks) = Some (max_key score best ks)"
proof (induction ks arbitrary: best)
  case Nil
  then show ?case by simp
next
  case (Cons k ks)
  show ?case
  proof (cases "score best < score k")
    case True
    have "score k \<le> score (max_key score k ks)"
      by (rule max_key_ge)
    with True have "score best \<noteq> score (max_key score k ks)"
      by simp
    with True Cons.IH [of k] show ?thesis
      by simp
  next
    case False
    show ?thesis
    proof (cases "score best = score (max_key score best ks)")
      case True
      with False Cons.IH [of best] show ?thesis
        by simp
    next
      case ne: False
      have "score best \<le> score (max_key score best ks)"
        by (rule max_key_ge)
      with ne False have "score k \<noteq> score (max_key score best ks)"
        by simp
      with ne False Cons.IH [of best] show ?thesis
        by simp
    qed
  qed
qed

text \<open>
  C7. The claim puts the threshold at scores below 1000. The code asks for a score
  above 1000: with a greatest score of exactly 1000 the colour is \<^verbatim>\<open>unknown\<close>.
\<close>

theorem score_1000_is_unknown:
  "detect_color (\<lambda>c. if c = ''red'' then 1000 else 0) = ''unknown'' \<and>
   \<not> Max ((\<lambda>c. if c = ''red'' then 1000 else 0) ` set color_names) < (1000::nat)"
  by (simp add: detect_color_def color_names_def)

text \<open>
  C7, as the code has it. The colour is \<^verbatim>\<open>unknown\<close> exactly when the greatest of
  the five scores is at most 1000; above 1000 it is the first colour, in the order
  red, blue, green, yellow, black, whose score is the greatest.
\<close>

theorem detect_color_threshold:
  "(detect_color score = ''unknown'' \<longleftrightarrow> Max (score ` set color_names) \<le> 1000) \<and>
   (1000 < Max (score ` set color_names) \<longrightarrow>
      find (\<lambda>c. score c = Max (score ` set color_names)) color_names
        = Some (detect_color score))"
proof -
  let ?d = "max_key score (hd color_names) (tl color_names)"
  have cn: "hd color_names # tl color_names = color_names"
    by (simp add: color_names_def)
  have m: "score ?d = Max (score ` set color_names)"
    using max_key_Max [of score "hd color_names" "tl color_names"] cn by simp
  have f: "find (\<lambda>c. score c = score ?d) color_names = Some ?d"
    using max_key_find [of score "hd color_names" "tl color_names"] cn by simp
  have "?d \<in> set color_names"
    using max_key_in [of score "hd color_names" "tl color_names"] cn by simp
  then have u: "?d \<noteq> ''unknown''"
    by (auto simp: color_names_def)
  show ?thesis
    using m f u by (auto simp: detect_color_def Let_def)
qed

theorem detect_color_threshold_witness:
  "1000 < Max ((\<lambda>c. if c = ''blue'' \<or> c = ''black'' then 1001 else (7::nat)) ` set color_names) \<and>
   detect_color (\<lambda>c. if c = ''blue'' \<or> c = ''black'' then 1001 else 7) = ''blue''"
proof -
  let ?s = "\<lambda>c. if c = ''blue'' \<or> c = ''black'' then 1001 else (7::nat)"
  have m: "Max (?s ` set color_names) = 1001"
    by (simp add: color_names_def)
  have "find (\<lambda>c. ?s c = Max (?s ` set color_names)) color_names = Some (detect_color ?s)"
    using detect_color_threshold [of ?s] m by simp
  then show ?thesis
    using m by (simp add: color_names_def)
qed

lemma foldl_digits_nonneg:
  "list_all is_decimal s \<Longrightarrow> 0 \<le> n \<Longrightarrow> 0 \<le> foldl (\<lambda>n c. 10 * n + digit_val c) n s"
proof (induction s arbitrary: n)
  case Nil
  then show ?case by simp
next
  case (Cons c s)
  then have "0 \<le> 10 * n + digit_val c"
    by (simp add: is_decimal_def digit_val_def)
  with Cons show ?case by simp
qed

lemma decimal_value_nonneg: "list_all is_decimal s \<Longrightarrow> 0 \<le> decimal_value s"
  by (simp add: decimal_value_def foldl_digits_nonneg)

text \<open>
  C10. When the recognised text holds none of the five symbols, and its digits are
  decimal characters, no more of them than \<^verbatim>\<open>int\<close> converts: the result is the
  decimal value of the digits, read together as one numeral, when there is a digit and
  the value is at most 9, and \<^verbatim>\<open>None\<close> otherwise. The numeral may have more than one
  character: \<^verbatim>\<open>07\<close> gives 7 and \<^verbatim>\<open>0009\<close> gives 9, \<^verbatim>\<open>12\<close> and the empty
  text give \<^verbatim>\<open>None\<close>.
\<close>

theorem digits_read_as_one_numeral:
  assumes "first_symbol special_cards (py_strip ocr) = None"
      and "list_all is_decimal (filter py_isdigit_char (py_strip ocr))"
      and "length (filter py_isdigit_char (py_strip ocr)) \<le> int_max_str_digits"
  shows "detect_card_type ocr =
           Inr (if filter py_isdigit_char (py_strip ocr) \<noteq> [] \<and>
                   decimal_value (filter py_isdigit_char (py_strip ocr)) \<le> 9
                then Digit (decimal_value (filter py_isdigit_char (py_strip ocr)))
                else NoSymbol)"
  using assms decimal_value_nonneg [OF assms(2)]
  by (simp add: detect_card_type_def py_int_def Let_def)

theorem digits_read_as_one_numeral_witness:
  "first_symbol special_cards (py_strip ''07'') = None \<and>
   list_all is_decimal (filter py_isdigit_char (py_strip ''07'')) \<and>
   length (filter py_isdigit_char (py_strip ''07'')) \<le> int_max_str_digits \<and>
   detect_card_type ''07'' = Inr (Digit 7) \<and>
   detect_card_type ''0009'' = Inr (Digit 9) \<and>
   detect_card_type ''12'' = Inr NoSymbol \<and>
   detect_card_type [] = Inr NoSymbol"
proof -
  have s1: "first_symbol special_cards (py_strip ''07'') = None"
    and s2: "first_symbol special_cards (py_strip ''0009'') = None"
    and s3: "first_symbol special_cards (py_strip ''12'') = None"
    and s4: "first_symbol special_cards (py_strip []) = None"
    by code_simp+
  have f1: "filter py_isdigit_char (py_strip ''07'') = ''07''"
    and f2: "filter py_isdigit_char (py_strip ''0009'') = ''0009''"
    and f3: "filter py_isdigit_char (py_strip ''12'') = ''12''"
    and f4: "filter py_isdigit_char (py_strip []) = []"
    by code_simp+
  have d1: "list_all is_decimal ''07''"
    and d2: "list_all is_decimal ''0009''"
    and d3: "list_all is_decimal ''12''"
    by code_simp+
  have v1: "decimal_value ''07'' = 7"
    and v2: "decimal_value ''0009'' = 9"
    and v3: "decimal_value ''12'' = 12"
    by code_simp+
  have r1: "detect_card_type ''07'' = Inr (Digit 7)"
    using digits_read_as_one_numeral [of "''07''"] s1 d1
    by (simp add: f1 v1 int_max_str_digits_def)
  have r2: "detect_card_type ''0009'' = Inr (Digit 9)"
    using digits_read_as_one_numeral [of "''0009''"] s2 d2
    by (simp add: f2 v2 int_max_str_digits_def)
  have r3: "detect_card_type ''12'' = Inr NoSymbol"
    using digits_read_as_one_numeral [of "''12''"] s3 d3
    by (simp add: f3 v3 int_max_str_digits_def)
  have r4: "detect_card_type [] = Inr NoSymbol"
    using digits_read_as_one_numeral [of "[]"] s4
    by (simp add: f4)
  show ?thesis
    using s1 d1 r1 r2 r3 r4 by (simp add: f1 int_max_str_digits_def)
qed

section \<open>Properties of the manual parser\<close>

text \<open>
  C8. The parser is to return a card or \<^verbatim>\<open>None\<close> for every text. For the text
  \<^verbatim>\<open>red\<close>, a space and the superscript two U+00B2 it returns neither: the second
  part passes \<^verbatim>\<open>isdigit\<close>, \<^verbatim>\<open>int\<close> raises \<^verbatim>\<open>ValueError\<close> on it, and the
  method does not catch the exception.
\<close>

theorem parse_superscript_two_raises:
  "parse_manual_input init_game (''red '' @ [CHR 0xB2]) False = Inl ValueError"
  by code_simp

section \<open>Properties of the removal from the hand\<close>

text \<open>
  C9. The claim has the choice 0 fail as the other choices outside the hand do. The
  code takes 0 for a cancellation and reports that, not an invalid number.
\<close>

theorem choice_zero_cancels:
  "fst (remove_card_from_hand
          \<lparr>player_hand = [Number ''red'' 5, Action ''blue'' ''skip'', Wild ''wild''],
           top_card = None\<rparr>
          (Inr 0)) = Cancelled \<and>
   fst (remove_card_from_hand
          \<lparr>player_hand = [Number ''red'' 5, Action ''blue'' ''skip'', Wild ''wild''],
           top_card = None\<rparr>
          (Inr 0)) \<noteq> InvalidNumber"
  by (simp add: remove_card_from_hand_def)

text \<open>
  C9, as the code has it, for a hand that is not empty. The choice 0 cancels and
  leaves the game as it is. A choice below 0 or above the length of the hand is
  reported as an invalid number and leaves the game as it is. A choice from 1 to the
  length removes the card at that place, counted from 1: the cards before it and the
  cards after it stay, in their order.
\<close>

theorem removal_by_choice:
  assumes "player_hand g \<noteq> []"
  shows "remove_card_from_hand g (Inr 0) = (Cancelled, g) \<and>
         (choice < 0 \<or> int (length (player_hand g)) < choice \<longrightarrow>
            remove_card_from_hand g (Inr choice) = (InvalidNumber, g)) \<and>
         (1 \<le> choice \<and> choice \<le> int (length (player_hand g)) \<longrightarrow>
            (\<exists>before c after.
               player_hand g = before @ c # after \<and> int (length before) = choice - 1 \<and>
               remove_card_from_hand g (Inr choice) =
                 (Removed c, g\<lparr>player_hand := before @ after\<rparr>)))"
proof (intro conjI impI)
  show "remove_card_from_hand g (Inr 0) = (Cancelled, g)"
    using assms by (simp add: remove_card_from_hand_def)
next
  assume "choice < 0 \<or> int (length (player_hand g)) < choice"
  then show "remove_card_from_hand g (Inr choice) = (InvalidNumber, g)"
    using assms by (auto simp: remove_card_from_hand_def)
next
  assume r: "1 \<le> choice \<and> choice \<le> int (length (player_hand g))"
  let ?i = "nat (choice - 1)"
  from r have i: "?i < length (player_hand g)"
    by auto
  from r have s: "Suc ?i = nat choice"
    by auto
  have "player_hand g =
          take ?i (player_hand g) @ player_hand g ! ?i # drop (nat choice) (player_hand g)"
    using id_take_nth_drop [OF i] s by simp
  moreover have "int (length (take ?i (player_hand g))) = choice - 1"
    using i r by simp
  moreover have "remove_card_from_hand g (Inr choice) =
      (Removed (player_hand g ! ?i),
       g\<lparr>player_hand := take ?i (player_hand g) @ drop (nat choice) (player_hand g)\<rparr>)"
    using assms r by (simp add: remove_card_from_hand_def)
  ultimately show "\<exists>before c after.
      player_hand g = before @ c # after \<and> int (length before) = choice - 1 \<and>
      remove_card_from_hand g (Inr choice) = (Removed c, g\<lparr>player_hand := before @ after\<rparr>)"
    by blast
qed

theorem removal_by_choice_witness:
  "player_hand \<lparr>player_hand = [Number ''red'' 5, Action ''blue'' ''skip'', Wild ''wild''],
                top_card = None\<rparr> \<noteq> [] \<and>
   remove_card_from_hand
     \<lparr>player_hand = [Number ''red'' 5, Action ''blue'' ''skip'', Wild ''wild''], top_card = None\<rparr>
     (Inr 1)
   = (Removed (Number ''red'' 5),
      \<lparr>player_hand = [Action ''blue'' ''skip'', Wild ''wild''], top_card = None\<rparr>) \<and>
   remove_card_from_hand
     \<lparr>player_hand = [Number ''red'' 5, Action ''blue'' ''skip'', Wild ''wild''], top_card = None\<rparr>
     (Inr 4)
   = (InvalidNumber,
      \<lparr>player_hand = [Number ''red'' 5, Action ''blue'' ''skip'', Wild ''wild''],
       top_card = None\<rparr>)"
proof -
  let ?g = "\<lparr>player_hand = [Number ''red'' 5, Action ''blue'' ''skip'', Wild ''wild''],
             top_card = None\<rparr>"
  have ne: "player_hand ?g \<noteq> []"
    by simp
  have "remove_card_from_hand ?g (Inr 4) = (InvalidNumber, ?g)"
    using removal_by_choice [OF ne, of 4] by simp
  moreover obtain before c after
    where h: "player_hand ?g = before @ c # after"
      and l: "int (length before) = 1 - 1"
      and r: "remove_card_from_hand ?g (Inr 1) = (Removed c, ?g\<lparr>player_hand := before @ after\<rparr>)"
    using removal_by_choice [OF ne, of 1] by auto
  from l have "before = []"
    by simp
  with h r have "remove_card_from_hand ?g (Inr 1) =
      (Removed (Number ''red'' 5),
       \<lparr>player_hand = [Action ''blue'' ''skip'', Wild ''wild''], top_card = None\<rparr>)"
    by simp
  ultimately show ?thesis
    by simp
qed

end
